theory Spec2Isabelle
  imports Main "HOL-Library.Word"
begin

unbundle bit_operations_syntax

section \<open>Shared data model\<close>

text \<open>
  Go strings and byte slices are sequences of 8-bit values: both are \<^typ>\<open>string\<close>
  here (a \<^typ>\<open>char\<close> of HOL is one byte).

  A Go \<^verbatim>\<open>error\<close> is a value. \<open>ErrorString\<close> is what \<^verbatim>\<open>errors.New\<close> builds (the
  repository's own configuration error), \<open>CorruptInputError\<close> and \<open>ErrUnexpectedEOF\<close> are
  the two errors of the standard base64 stream decoder (the byte offset that Go attaches to
  the former is left out), \<open>InvalidMethod\<close> is what \<^verbatim>\<open>http.NewRequestWithContext\<close> answers
  to a method that is not a token, and \<open>External\<close> stands for any error value handed back
  by a collaborator that is not part of the repository (envelope decoder, URL parser,
  credential source, signer, configuration loader, body reader, inner transport).
\<close>

type_synonym bytes = string

datatype error =
    ErrorString string
  | CorruptInputError
  | ErrUnexpectedEOF
  | InvalidMethod string
  | External string

text \<open>
  An \<^verbatim>\<open>io.ReadCloser\<close> is a stream with a state: the bytes it has still to deliver, and
  what comes after them, \<open>None\<close> when the stream then ends with \<^verbatim>\<open>io.EOF\<close> or \<open>Some e\<close>
  when the next read fails with \<open>e\<close>. Reading consumes the stream.

  \<^verbatim>\<open>io.Copy(buf, r)\<close> reads \<open>r\<close> until it ends or fails. It answers with the bytes that
  arrived in the buffer and with the error of the failing read, if any, and it leaves
  \<open>r\<close> drained: the third component is the state of \<open>r\<close> after the copy, a stream with
  nothing left to deliver. \<^verbatim>\<open>io.NopCloser(buf)\<close> over a buffer is a new stream that
  delivers the bytes of the buffer and then ends.
\<close>

type_synonym reader = "bytes \<times> error option"

definition io_Copy :: "reader \<Rightarrow> bytes \<times> error option \<times> reader" where
  "io_Copy r = (fst r, snd r, ([], snd r))"

definition NopCloser :: "bytes \<Rightarrow> reader" where
  "NopCloser buf = (buf, None)"

text \<open>\<^verbatim>\<open>context.Context\<close>: only its identity is used, it is passed along.\<close>

type_synonym Context = nat

subsection \<open>\<^verbatim>\<open>http.Header\<close>\<close>

text \<open>
  \<^verbatim>\<open>http.Header\<close> is \<^verbatim>\<open>map[string][]string\<close>. \<^verbatim>\<open>Add\<close>, \<^verbatim>\<open>Set\<close> and \<^verbatim>\<open>Del\<close> first bring the
  key into canonical MIME form (\<^verbatim>\<open>textproto.CanonicalMIMEHeaderKey\<close>): a key holding a byte
  that is not a token character is left as it is, otherwise the first letter and every
  letter after a hyphen is made upper case and every other letter lower case.
\<close>

type_synonym Header = "string \<rightharpoonup> string list"

definition isTokenByte :: "char \<Rightarrow> bool" where
  "isTokenByte c =
     (let n = (of_char c :: nat) in
        (48 \<le> n \<and> n \<le> 57) \<or> (65 \<le> n \<and> n \<le> 90) \<or> (97 \<le> n \<and> n \<le> 122) \<or>
        n \<in> set [33, 35, 36, 37, 38, 39, 42, 43, 45, 46, 94, 95, 96, 124, 126])"

fun canonicalize :: "bool \<Rightarrow> string \<Rightarrow> string" where
  "canonicalize upper [] = []"
| "canonicalize upper (c # cs) =
     (let n = (of_char c :: nat) in
        (if upper \<and> 97 \<le> n \<and> n \<le> 122 then char_of (n - 32)
         else if \<not> upper \<and> 65 \<le> n \<and> n \<le> 90 then char_of (n + 32)
         else c) # canonicalize (c = CHR ''-'') cs)"

definition CanonicalMIMEHeaderKey :: "string \<Rightarrow> string" where
  "CanonicalMIMEHeaderKey s = (if list_all isTokenByte s then canonicalize True s else s)"

definition header_values :: "Header \<Rightarrow> string \<Rightarrow> string list" where
  "header_values h k = (case h k of None \<Rightarrow> [] | Some vs \<Rightarrow> vs)"

definition Header_Add :: "Header \<Rightarrow> string \<Rightarrow> string \<Rightarrow> Header" where
  "Header_Add h key val =
     h(CanonicalMIMEHeaderKey key \<mapsto> header_values h (CanonicalMIMEHeaderKey key) @ [val])"

definition Header_Set :: "Header \<Rightarrow> string \<Rightarrow> string \<Rightarrow> Header" where
  "Header_Set h key val = h(CanonicalMIMEHeaderKey key \<mapsto> [val])"

definition Header_Del :: "Header \<Rightarrow> string \<Rightarrow> Header" where
  "Header_Del h key = h(CanonicalMIMEHeaderKey key := None)"

subsection \<open>\<^verbatim>\<open>http.Request\<close> and \<^verbatim>\<open>http.Response\<close>\<close>

text \<open>
  Of \<^verbatim>\<open>url.URL\<close> the path and the raw query are kept. Of \<^verbatim>\<open>http.Request\<close>: the context,
  the method, the URL, the header and the body (\<open>None\<close> is Go's \<^verbatim>\<open>nil\<close> body).
\<close>

record url =
  URL_Path :: string
  RawQuery :: string

record Request =
  Ctx :: Context
  Method :: string
  URL :: url
  Header :: Header
  ReqBody :: "reader option"

record Response =
  Status :: int
  ResponseBody :: bytes

text \<open>\<^verbatim>\<open>http.RoundTripper\<close>: one request in, a response or an error out.\<close>

type_synonym RoundTripper = "Request \<Rightarrow> error + Response"

subsection \<open>Observable effects\<close>

text \<open>
  Calls to collaborators are recorded in the order in which they happen, so that
  ``is never invoked'' is a statement about the list of events of a run.
\<close>

datatype event =
    EvDecodeMessage bytes
  | EvServeHTTP Request
  | EvRetrieve Context
  | EvSignHTTP string string string
  | EvRoundTrip Request

section \<open>Standard base64 (\<^verbatim>\<open>encoding/base64\<close>)\<close>

definition encodeStd :: string where
  "encodeStd = ''ABCDEFGHIJKLMNOPQRSTUVWXYZabcdefghijklmnopqrstuvwxyz0123456789+/''"

definition b64char :: "nat \<Rightarrow> char" where
  "b64char i = encodeStd ! (i mod 64)"

text \<open>
  \<^verbatim>\<open>RawStdEncoding.EncodeToString\<close>: three bytes give four characters; a rest of one or
  two bytes gives two or three characters, and no padding is written.
\<close>

fun EncodeToString :: "bytes \<Rightarrow> string" where
  "EncodeToString (a # b # c # rest) =
     b64char (of_char a div 4) #
     b64char (of_char a mod 4 * 16 + of_char b div 16) #
     b64char (of_char b mod 16 * 4 + of_char c div 64) #
     b64char (of_char c mod 64) # EncodeToString rest"
| "EncodeToString [a, b] =
     [b64char (of_char a div 4),
      b64char (of_char a mod 4 * 16 + of_char b div 16),
      b64char (of_char b mod 16 * 4)]"
| "EncodeToString [a] =
     [b64char (of_char a div 4), b64char (of_char a mod 4 * 16)]"
| "EncodeToString [] = []"

text \<open>
  The decode map of \<^verbatim>\<open>StdEncoding\<close>: the position of a character in the alphabet, \<open>None\<close>
  for every other byte.
\<close>

fun index_of :: "char \<Rightarrow> string \<Rightarrow> nat \<Rightarrow> nat option" where
  "index_of c [] i = None"
| "index_of c (x # xs) i = (if c = x then Some i else index_of c xs (Suc i))"

definition decodeMap :: "char \<Rightarrow> nat option" where
  "decodeMap c = index_of c encodeStd 0"

definition padChar :: char where
  "padChar = CHR ''=''"

text \<open>
  \<^verbatim>\<open>base64.NewDecoder(base64.StdEncoding, r)\<close> read to its end. The decoder drops carriage
  returns and line feeds, then decodes quanta of four characters as \<^verbatim>\<open>Encoding.Decode\<close>
  does (not strict: the unused bits of a padded quantum are not checked). A quantum with a
  foreign character, or with padding in its first two places or in the third place only,
  ends the stream with \<open>CorruptInputError\<close> and yields nothing itself; a padded quantum
  followed by more input yields its bytes and then \<open>CorruptInputError\<close>; one to three
  characters left over at the end give \<open>ErrUnexpectedEOF\<close>. The bytes decoded before the
  failure have been delivered. (Go decodes the input chunk by chunk, a chunk being at
  least 680 characters when read by \<^verbatim>\<open>io.ReadAll\<close>; the model is the decoding of a body
  that fits one chunk.)
\<close>

fun decodeQuanta :: "string \<Rightarrow> reader" where
  "decodeQuanta (a # b # c # d # rest) =
     (case (decodeMap a, decodeMap b) of
        (Some x, Some y) \<Rightarrow>
          (if c = padChar then
             (if d = padChar
              then ([char_of (x * 4 + y div 16)],
                    if rest = [] then None else Some CorruptInputError)
              else ([], Some CorruptInputError))
           else
             (case decodeMap c of
                None \<Rightarrow> ([], Some CorruptInputError)
              | Some z \<Rightarrow>
                  (if d = padChar
                   then ([char_of (x * 4 + y div 16), char_of (y mod 16 * 16 + z div 4)],
                         if rest = [] then None else Some CorruptInputError)
                   else
                     (case decodeMap d of
                        None \<Rightarrow> ([], Some CorruptInputError)
                      | Some w \<Rightarrow>
                          (case decodeQuanta rest of
                             (out, err) \<Rightarrow>
                               (char_of (x * 4 + y div 16) #
                                char_of (y mod 16 * 16 + z div 4) #
                                char_of (z mod 4 * 64 + w) # out, err))))))
      | _ \<Rightarrow> ([], Some CorruptInputError))"
| "decodeQuanta [] = ([], None)"
| "decodeQuanta _ = ([], Some ErrUnexpectedEOF)"

definition isNewline :: "char \<Rightarrow> bool" where
  "isNewline c = (c = CHR 0x0A \<or> c = CHR 0x0D)"

definition NewDecoder :: "string \<Rightarrow> reader" where
  "NewDecoder s = decodeQuanta (filter (\<lambda>c. \<not> isNewline c) s)"

section \<open>Gateway (\<^verbatim>\<open>internal/gateway\<close>)\<close>

subsection \<open>Edge-proxy event and response (\<^verbatim>\<open>events.APIGatewayProxyRequest\<close>, \<^verbatim>\<open>events.APIGatewayProxyResponse\<close>)\<close>

text \<open>
  The two Go maps of the event are association lists: the pairs of the map in the order in
  which \<^verbatim>\<open>range\<close> visits them (Go leaves that order open). A \<^verbatim>\<open>nil\<close> map of the response and
  a map without entries are the same value here.
\<close>

record APIGatewayProxyRequest =
  HTTPMethod :: string
  Path :: string
  Headers :: "(string \<times> string) list"
  QueryStringParameters :: "(string \<times> string) list"
  Body :: string
  IsBase64Encoded :: bool

record APIGatewayProxyResponse =
  StatusCode :: int
  RespHeaders :: "string \<rightharpoonup> string"
  MultiValueHeaders :: Header
  RespBody :: string
  RespIsBase64Encoded :: bool

subsection \<open>Collaborators of the gateway\<close>

text \<open>
  What the gateway calls outside the repository: \<^verbatim>\<open>jsonrpc.DecodeMessage\<close> (the envelope
  type \<open>'msg\<close> is opaque), \<^verbatim>\<open>url.Parse\<close>, and the chain \<^verbatim>\<open>URL.Query\<close>, \<^verbatim>\<open>Values.Add\<close>,
  \<^verbatim>\<open>Values.Encode\<close> that turns a raw query and the pairs to add into the new raw query.
\<close>

record 'msg extern =
  DecodeMessage :: "bytes \<Rightarrow> error + 'msg"
  url_Parse :: "string \<Rightarrow> error + url"
  query_Add_Encode :: "string \<Rightarrow> (string \<times> string) list \<Rightarrow> string"

text \<open>
  The protocol handler (\<^verbatim>\<open>Controller.ServeHTTP\<close>) receives the recorder and the request and
  writes to the recorder: it is the list of the writes it performs for a request.
\<close>

datatype writer_op =
    OpWriteHeader int
  | OpWrite bytes
  | OpHeaderAdd string string
  | OpHeaderSet string string
  | OpHeaderDel string

type_synonym Controller = "Request \<Rightarrow> writer_op list"

record Gateway =
  ctrl :: Controller

definition New :: "Controller \<Rightarrow> Gateway" where
  "New c = \<lparr>ctrl = c\<rparr>"

subsection \<open>Request adapter (\<^verbatim>\<open>apigw.go\<close>)\<close>

definition requestBody :: "APIGatewayProxyRequest \<Rightarrow> reader" where
  "requestBody r = (if IsBase64Encoded r then NewDecoder (Body r) else (Body r, None))"

text \<open>
  \<^verbatim>\<open>http.NewRequestWithContext\<close>: an empty method means \<^verbatim>\<open>GET\<close>; the method must be a
  non-empty sequence of token characters; the URL must parse. The body handed in is never
  \<^verbatim>\<open>nil\<close> here, so the request has a body.
\<close>

definition validMethod :: "string \<Rightarrow> bool" where
  "validMethod m = (0 < length m \<and> list_all isTokenByte m)"

definition NewRequestWithContext ::
    "'msg extern \<Rightarrow> Context \<Rightarrow> string \<Rightarrow> string \<Rightarrow> reader \<Rightarrow> error + Request" where
  "NewRequestWithContext ext ctx method target body =
     (let m = (if method = [] then ''GET'' else method) in
        if \<not> validMethod m then Inl (InvalidMethod m)
        else (case url_Parse ext target of
                Inl err \<Rightarrow> Inl err
              | Inr u \<Rightarrow>
                  Inr \<lparr>Ctx = ctx, Method = m, URL = u, Header = Map.empty, ReqBody = Some body\<rparr>))"

definition NewHttpRequest ::
    "'msg extern \<Rightarrow> Context \<Rightarrow> APIGatewayProxyRequest \<Rightarrow> error + Request" where
  "NewHttpRequest ext ctx r =
     (case NewRequestWithContext ext ctx (HTTPMethod r) (Path r) (requestBody r) of
        Inl err \<Rightarrow> Inl err
      | Inr req \<Rightarrow>
          Inr (req\<lparr>Header := fold (\<lambda>(header, val) h. Header_Set h header val) (Headers r) (Header req),
                   URL := (URL req)\<lparr>RawQuery :=
                             query_Add_Encode ext (RawQuery (URL req)) (QueryStringParameters r)\<rparr>\<rparr>))"

subsection \<open>Response recorder (\<^verbatim>\<open>writer\<close> in \<^verbatim>\<open>apigw.go\<close>)\<close>

record writer =
  code :: int
  head :: Header
  wbuf :: bytes

definition NewHttpResponse :: writer where
  "NewHttpResponse = \<lparr>code = 0, head = Map.empty, wbuf = []\<rparr>"

definition WriteHeader :: "int \<Rightarrow> writer \<Rightarrow> writer" where
  "WriteHeader statusCode w = w\<lparr>code := statusCode\<rparr>"

definition Write :: "bytes \<Rightarrow> writer \<Rightarrow> writer" where
  "Write b w = w\<lparr>wbuf := wbuf w @ b\<rparr>"

definition Value :: "writer \<Rightarrow> APIGatewayProxyResponse" where
  "Value w =
     \<lparr>StatusCode = (if code w \<noteq> 0 then code w else 200),
      RespHeaders = Map.empty,
      MultiValueHeaders = head w,
      RespBody = wbuf w,
      RespIsBase64Encoded = False\<rparr>"

text \<open>One write of the handler, and all of them in order.\<close>

fun apply_op :: "writer_op \<Rightarrow> writer \<Rightarrow> writer" where
  "apply_op (OpWriteHeader c) w = WriteHeader c w"
| "apply_op (OpWrite b) w = Write b w"
| "apply_op (OpHeaderAdd k v) w = w\<lparr>head := Header_Add (head w) k v\<rparr>"
| "apply_op (OpHeaderSet k v) w = w\<lparr>head := Header_Set (head w) k v\<rparr>"
| "apply_op (OpHeaderDel k) w = w\<lparr>head := Header_Del (head w) k\<rparr>"

definition ServeHTTP :: "writer_op list \<Rightarrow> writer \<Rightarrow> writer" where
  "ServeHTTP ops w = fold apply_op ops w"

subsection \<open>Controller (\<^verbatim>\<open>gateway.go\<close>)\<close>

text \<open>
  Every operation returns its Go result (\<open>Inl\<close> the error, the response pointer being
  \<^verbatim>\<open>nil\<close> then) together with the calls to the decoder and to the handler it made. The
  \<^verbatim>\<open>slog\<close> lines are not modelled.
\<close>

definition serveCtrl ::
    "'msg extern \<Rightarrow> Gateway \<Rightarrow> Context \<Rightarrow> APIGatewayProxyRequest \<Rightarrow>
       (error + APIGatewayProxyResponse) \<times> event list" where
  "serveCtrl ext gw ctx req =
     (case NewHttpRequest ext ctx req of
        Inl err \<Rightarrow> (Inl err, [])
      | Inr input \<Rightarrow>
          (Inr (Value (ServeHTTP (ctrl gw input) NewHttpResponse)), [EvServeHTTP input]))"

definition Serve ::
    "'msg extern \<Rightarrow> Gateway \<Rightarrow> Context \<Rightarrow> APIGatewayProxyRequest \<Rightarrow>
       (error + APIGatewayProxyResponse) \<times> event list" where
  "Serve ext gw ctx req =
     (if HTTPMethod req = ''GET'' then
        (Inr \<lparr>StatusCode = 405, RespHeaders = Map.empty, MultiValueHeaders = Map.empty,
              RespBody = [], RespIsBase64Encoded = False\<rparr>, [])
      else if length (Body req) = 0 then serveCtrl ext gw ctx req
      else
        (case DecodeMessage ext (Body req) of
           Inl err \<Rightarrow> (Inl err, [EvDecodeMessage (Body req)])
         | Inr msg \<Rightarrow>
             (case serveCtrl ext gw ctx req of
                (res, evs) \<Rightarrow> (res, EvDecodeMessage (Body req) # evs))))"

section \<open>SHA-256 (\<^verbatim>\<open>crypto/sha256\<close>, \<^verbatim>\<open>encoding/hex\<close>)\<close>

text \<open>
  Go's \<^verbatim>\<open>uint32\<close> arithmetic is written on \<^typ>\<open>nat\<close> with the wrap-around spelled out:
  every value is below \<open>2 ^ 32\<close>, \<open>add32\<close> is the wrapping sum, \<open>rotr\<close> is
  \<^verbatim>\<open>bits.RotateLeft32(x, -n)\<close> and \<open>not32\<close> is \<^verbatim>\<open>^x\<close>.
\<close>

definition add32 :: "nat \<Rightarrow> nat \<Rightarrow> nat" where
  "add32 x y = (x + y) mod 4294967296"

definition rotr :: "nat \<Rightarrow> nat \<Rightarrow> nat" where
  "rotr n x = x div 2 ^ n + (x mod 2 ^ n) * 2 ^ (32 - n)"

definition not32 :: "nat \<Rightarrow> nat" where
  "not32 x = 4294967295 - x"

text \<open>
  The table \<^verbatim>\<open>_K\<close> of the 64 round constants, which the Go source writes in hexadecimal
  from \<^verbatim>\<open>0x428a2f98\<close> to \<^verbatim>\<open>0xc67178f2\<close>, and the initial state \<^verbatim>\<open>init0\<close> to \<^verbatim>\<open>init7\<close>.
\<close>

definition sha256_K :: "nat list" where
  "sha256_K =
    [1116352408, 1899447441, 3049323471, 3921009573, 961987163, 1508970993,
     2453635748, 2870763221, 3624381080, 310598401, 607225278, 1426881987,
     1925078388, 2162078206, 2614888103, 3248222580, 3835390401, 4022224774,
     264347078, 604807628, 770255983, 1249150122, 1555081692, 1996064986,
     2554220882, 2821834349, 2952996808, 3210313671, 3336571891, 3584528711,
     113926993, 338241895, 666307205, 773529912, 1294757372, 1396182291,
     1695183700, 1986661051, 2177026350, 2456956037, 2730485921, 2820302411,
     3259730800, 3345764771, 3516065817, 3600352804, 4094571909, 275423344,
     430227734, 506948616, 659060556, 883997877, 958139571, 1322822218,
     1537002063, 1747873779, 1955562222, 2024104815, 2227730452, 2361852424,
     2428436474, 2756734187, 3204031479, 3329325298]"

type_synonym sha256_state = "nat \<times> nat \<times> nat \<times> nat \<times> nat \<times> nat \<times> nat \<times> nat"

definition sha256_init :: sha256_state where
  "sha256_init =
    (0x6a09e667, 0xbb67ae85, 0x3c6ef372, 0xa54ff53a, 0x510e527f, 0x9b05688c, 0x1f83d9ab, 0x5be0cd19)"

text \<open>The sixteen big-endian words of a 64-byte chunk.\<close>

fun be32 :: "nat list \<Rightarrow> nat list" where
  "be32 (a # b # c # d # rest) = (a * 16777216 + b * 65536 + c * 256 + d) # be32 rest"
| "be32 _ = []"

text \<open>
  The message schedule \<^verbatim>\<open>w[i] = t1 + w[i-7] + t2 + w[i-16]\<close> with \<^verbatim>\<open>t1\<close> from \<^verbatim>\<open>w[i-2]\<close>
  and \<^verbatim>\<open>t2\<close> from \<^verbatim>\<open>w[i-15]\<close>. \<open>schedule ks win\<close> yields one word for each element of
  \<open>ks\<close>, \<open>win\<close> being the window \<^verbatim>\<open>w[i..i+15]\<close>.
\<close>

definition sched_t1 :: "nat \<Rightarrow> nat" where
  "sched_t1 v1 = rotr 17 v1 XOR rotr 19 v1 XOR v1 div 2 ^ 10"

definition sched_t2 :: "nat \<Rightarrow> nat" where
  "sched_t2 v2 = rotr 7 v2 XOR rotr 18 v2 XOR v2 div 2 ^ 3"

fun schedule :: "nat list \<Rightarrow> nat list \<Rightarrow> nat list" where
  "schedule [] win = []"
| "schedule (k # ks) win =
     hd win #
     schedule ks
       (tl win @ [add32 (add32 (add32 (sched_t1 (win ! 14)) (win ! 9)) (sched_t2 (win ! 1))) (win ! 0)])"

definition round_t1 :: "nat \<Rightarrow> nat \<Rightarrow> nat \<Rightarrow> nat \<Rightarrow> nat \<Rightarrow> nat \<Rightarrow> nat" where
  "round_t1 e f g h k w =
     add32 (add32 (add32 (add32 h (rotr 6 e XOR rotr 11 e XOR rotr 25 e))
                         ((e AND f) XOR (not32 e AND g))) k) w"

definition round_t2 :: "nat \<Rightarrow> nat \<Rightarrow> nat \<Rightarrow> nat" where
  "round_t2 a b c =
     add32 (rotr 2 a XOR rotr 13 a XOR rotr 22 a) ((a AND b) XOR (a AND c) XOR (b AND c))"

fun sha256_round :: "nat \<times> nat \<Rightarrow> sha256_state \<Rightarrow> sha256_state" where
  "sha256_round (k, w) (a, b, c, d, e, f, g, h) =
     (add32 (round_t1 e f g h k w) (round_t2 a b c), a, b, c,
      add32 d (round_t1 e f g h k w), e, f, g)"

fun sha256_add :: "sha256_state \<Rightarrow> sha256_state \<Rightarrow> sha256_state" where
  "sha256_add (h0, h1, h2, h3, h4, h5, h6, h7) (a, b, c, d, e, f, g, h) =
     (add32 h0 a, add32 h1 b, add32 h2 c, add32 h3 d, add32 h4 e, add32 h5 f, add32 h6 g, add32 h7 h)"

definition blockGeneric1 :: "sha256_state \<Rightarrow> nat list \<Rightarrow> sha256_state" where
  "blockGeneric1 dig p =
     sha256_add dig (fold sha256_round (zip sha256_K (schedule sha256_K (be32 p))) dig)"

function blockGeneric :: "sha256_state \<Rightarrow> nat list \<Rightarrow> sha256_state" where
  "blockGeneric dig p =
     (if length p < 64 then dig else blockGeneric (blockGeneric1 dig (take 64 p)) (drop 64 p))"
  by pat_completeness auto
termination
  by (relation "measure (\<lambda>(dig, p). length p)") auto

declare blockGeneric.simps [simp del]

text \<open>
  \<^verbatim>\<open>digest.checkSum\<close>: the byte \<open>0x80\<close>, zeros up to 56 modulo 64, and the length of the
  message in bits as eight big-endian bytes (a \<^verbatim>\<open>uint64\<close>).
\<close>

definition be64 :: "nat \<Rightarrow> nat list" where
  "be64 n = map (\<lambda>i. n div 256 ^ i mod 256) [7, 6, 5, 4, 3, 2, 1, 0]"

definition sha256_padding :: "nat \<Rightarrow> nat list" where
  "sha256_padding len =
     128 #
     replicate ((if len mod 64 < 56 then 56 - len mod 64 else 64 + 56 - len mod 64) - 1) 0 @
     be64 (len * 8 mod 2 ^ 64)"

definition hexdigit :: "nat \<Rightarrow> char" where
  "hexdigit n = ''0123456789abcdef'' ! (n mod 16)"

definition hex32 :: "nat \<Rightarrow> string" where
  "hex32 w = map (\<lambda>i. hexdigit (w div 16 ^ i)) [7, 6, 5, 4, 3, 2, 1, 0]"

fun hex_state :: "sha256_state \<Rightarrow> string" where
  "hex_state (h0, h1, h2, h3, h4, h5, h6, h7) =
     hex32 h0 @ hex32 h1 @ hex32 h2 @ hex32 h3 @ hex32 h4 @ hex32 h5 @ hex32 h6 @ hex32 h7"

text \<open>\<^verbatim>\<open>hex.EncodeToString(hasher.Sum(nil))\<close> after the bytes \<open>m\<close> were written to the hasher.\<close>

definition sha256_hex :: "bytes \<Rightarrow> string" where
  "sha256_hex m =
     hex_state (blockGeneric sha256_init (map of_char m @ sha256_padding (length m)))"

section \<open>Authenticated transports (\<^verbatim>\<open>pkg/auth\<close>)\<close>

text \<open>
  Of \<^verbatim>\<open>http.Client\<close> the transport is kept (\<open>None\<close> is \<^verbatim>\<open>nil\<close>); of
  \<^verbatim>\<open>mcp.StreamableClientTransport\<close> the endpoint and the client. The type parameter is the
  kind of round tripper the client holds: any \<open>RoundTripper\<close> in a configuration, the
  transport just built in the result of a constructor.
\<close>

record 't Client =
  Transport :: "'t option"

record 't StreamableClientTransport =
  Endpoint :: string
  HTTPClient :: "'t Client"

subsection \<open>Shared-secret transport (\<^verbatim>\<open>apikey.go\<close>)\<close>

record ConfigApiKey =
  Url :: string
  Access :: string
  Secret :: string
  Client :: "RoundTripper Client option"

record apikeyTransport =
  digest :: string
  socket :: RoundTripper

text \<open>The first argument is \<^verbatim>\<open>http.DefaultTransport\<close>.\<close>

definition NewTransportApiKey ::
    "RoundTripper \<Rightarrow> ConfigApiKey \<Rightarrow> error + apikeyTransport StreamableClientTransport" where
  "NewTransportApiKey DefaultTransport spec =
     (if length (Url spec) = 0 then Inl (ErrorString ''missing URL config'')
      else
        Inr \<lparr>Endpoint = Url spec,
             HTTPClient = \<lparr>Transport = Some
               \<lparr>digest = EncodeToString (Access spec @ '':'' @ Secret spec),
                socket = (case Client spec of
                            None \<Rightarrow> DefaultTransport
                          | Some c \<Rightarrow> (case Transport c of
                                         None \<Rightarrow> DefaultTransport
                                       | Some t \<Rightarrow> t))\<rparr>\<rparr>\<rparr>)"

text \<open>
  \<^verbatim>\<open>apikeyTransport.RoundTrip\<close>: the result of the inner transport, and the one call made
  to it.
\<close>

definition apikey_RoundTrip ::
    "apikeyTransport \<Rightarrow> Request \<Rightarrow> (error + Response) \<times> event list" where
  "apikey_RoundTrip api req =
     (let req' = req\<lparr>Header := Header_Add (Header req) ''Authorization'' (''Basic '' @ digest api)\<rparr>
      in (socket api req', [EvRoundTrip req']))"

subsection \<open>Signed-request transport\<close>

text \<open>
  \<^verbatim>\<open>aws.Credentials\<close>, and of \<^verbatim>\<open>aws.Config\<close> the credential provider (its \<^verbatim>\<open>Retrieve\<close>) and
  the region. \<^verbatim>\<open>v4.Signer.SignHTTP\<close> receives the context, the credentials, the request,
  the payload hash, the service, the region and the signing time; it writes the header and
  the URL of the request, which are what it returns here, and leaves the body alone.
\<close>

record Credentials =
  AccessKeyID :: string
  SecretAccessKey :: string
  SessionToken :: string

record aws_Config =
  Retrieve :: "Context \<Rightarrow> error + Credentials"
  Region :: string

type_synonym Signer =
  "Context \<Rightarrow> Credentials \<Rightarrow> Request \<Rightarrow> string \<Rightarrow> string \<Rightarrow> string \<Rightarrow> nat \<Rightarrow> error + Header \<times> url"

text \<open>
  What the constructor calls in the AWS SDK: \<^verbatim>\<open>config.LoadDefaultConfig\<close> without options,
  the same call with the cached assume-role provider built from a configuration, a role
  and an optional external id, and \<^verbatim>\<open>v4.NewSigner\<close>.
\<close>

record aws_sdk =
  LoadDefaultConfig :: "error + aws_Config"
  LoadAssumeRoleConfig :: "aws_Config \<Rightarrow> string \<Rightarrow> string option \<Rightarrow> error + aws_Config"
  NewSigner :: Signer

record ConfigIAM =
  IAM_Url :: string
  Role :: string
  ExternalID :: string
  Config :: "aws_Config option"
  IAM_Client :: "RoundTripper Client option"

record iamTransport =
  config :: aws_Config
  signer :: Signer
  iam_socket :: RoundTripper

definition NewTransportIAM ::
    "RoundTripper \<Rightarrow> aws_sdk \<Rightarrow> ConfigIAM \<Rightarrow> error + iamTransport StreamableClientTransport" where
  "NewTransportIAM DefaultTransport sdk spec =
     (if length (IAM_Url spec) = 0 then Inl (ErrorString ''missing URL config'')
      else
        (case (case Config spec of None \<Rightarrow> LoadDefaultConfig sdk | Some c \<Rightarrow> Inr c) of
           Inl err \<Rightarrow> Inl err
         | Inr conf \<Rightarrow>
             (case (if Role spec \<noteq> []
                    then LoadAssumeRoleConfig sdk conf (Role spec)
                           (if ExternalID spec \<noteq> [] then Some (ExternalID spec) else None)
                    else Inr conf) of
                Inl err \<Rightarrow> Inl err
              | Inr conf' \<Rightarrow>
                  Inr \<lparr>Endpoint = IAM_Url spec,
                       HTTPClient = \<lparr>Transport = Some
                         \<lparr>config = conf',
                          signer = NewSigner sdk,
                          iam_socket = (case IAM_Client spec of
                                          None \<Rightarrow> DefaultTransport
                                        | Some c \<Rightarrow> (case Transport c of
                                                       None \<Rightarrow> DefaultTransport
                                                     | Some t \<Rightarrow> t))\<rparr>\<rparr>\<rparr>)))"

definition empty_hash :: string where
  "empty_hash = ''e3b0c44298fc1c149afbf4c8996fb92427ae41e4649b934ca495991b7852b855''"

text \<open>
  The body step of \<^verbatim>\<open>iamTransport.RoundTrip\<close>: without a body the hash is the constant.
  With a body, the stream of the request is copied into a buffer through the hasher
  (\<^verbatim>\<open>io.TeeReader\<close>: the hasher gets the bytes the buffer gets); a failing read is the error of
  the call. After the copy the request holds the drained stream (\<open>drained\<close> below); the
  assignment \<^verbatim>\<open>req.Body = io.NopCloser(buf)\<close> then gives it a new stream over the buffer.
\<close>

definition hashBody :: "Request \<Rightarrow> error + string \<times> Request" where
  "hashBody req =
     (case ReqBody req of
        None \<Rightarrow> Inr (empty_hash, req)
      | Some body \<Rightarrow>
          (case io_Copy body of
             (buf, Some err, rest) \<Rightarrow> Inl err
           | (buf, None, rest) \<Rightarrow>
               (let drained = req\<lparr>ReqBody := Some rest\<rparr>
                in Inr (sha256_hex buf, drained\<lparr>ReqBody := Some (NopCloser buf)\<rparr>))))"

text \<open>
  \<^verbatim>\<open>iamTransport.RoundTrip\<close>; \<open>now\<close> is \<^verbatim>\<open>time.Now()\<close>. The events are the calls to the
  credential provider, to the signer (with the hash, the service and the region it got)
  and to the inner transport.
\<close>

definition iam_RoundTrip ::
    "iamTransport \<Rightarrow> nat \<Rightarrow> Request \<Rightarrow> (error + Response) \<times> event list" where
  "iam_RoundTrip api now req =
     (case Retrieve (config api) (Ctx req) of
        Inl err \<Rightarrow> (Inl err, [EvRetrieve (Ctx req)])
      | Inr credential \<Rightarrow>
          (case hashBody req of
             Inl err \<Rightarrow> (Inl err, [EvRetrieve (Ctx req)])
           | Inr (hash, req1) \<Rightarrow>
               (case signer api (Ctx req1) credential req1 hash ''execute-api''
                       (Region (config api)) now of
                  Inl err \<Rightarrow>
                    (Inl err,
                     [EvRetrieve (Ctx req), EvSignHTTP hash ''execute-api'' (Region (config api))])
                | Inr (h, u) \<Rightarrow>
                    (iam_socket api (req1\<lparr>Header := h, URL := u\<rparr>),
                     [EvRetrieve (Ctx req), EvSignHTTP hash ''execute-api'' (Region (config api)),
                      EvRoundTrip (req1\<lparr>Header := h, URL := u\<rparr>)]))))"

section \<open>Reference definitions and concrete inputs\<close>

subsection \<open>What a list of handler writes amounts to\<close>

text \<open>
  The most recent status among the writes of a handler, the bytes it wrote, and the
  header operations it performed. \<open>spec_statusCode\<close> is the finalization rule in the words
  of the specification: 200 when no status was set, else the status set last.
\<close>

fun last_status :: "writer_op list \<Rightarrow> int option" where
  "last_status [] = None"
| "last_status (x # ops) =
     (case last_status ops of
        Some c \<Rightarrow> Some c
      | None \<Rightarrow> (case x of OpWriteHeader c \<Rightarrow> Some c | _ \<Rightarrow> None))"

definition spec_statusCode :: "writer_op list \<Rightarrow> int" where
  "spec_statusCode ops = (case last_status ops of None \<Rightarrow> 200 | Some c \<Rightarrow> c)"

fun written :: "writer_op \<Rightarrow> bytes" where
  "written (OpWrite b) = b"
| "written _ = []"

fun header_op :: "writer_op \<Rightarrow> Header \<Rightarrow> Header" where
  "header_op (OpHeaderAdd k v) h = Header_Add h k v"
| "header_op (OpHeaderSet k v) h = Header_Set h k v"
| "header_op (OpHeaderDel k) h = Header_Del h k"
| "header_op _ h = h"

subsection \<open>Collaborators and inputs for the concrete runs\<close>

text \<open>
  Stand-ins for the collaborators at the inputs used below: a decoder that accepts the
  JSON-RPC ping request and rejects everything else, a URL parser that knows the path
  \<^verbatim>\<open>/mcp\<close>, a handler that answers 201 with a JSON body, an inner transport that answers
  200, a credential provider and a signer that fail on chosen inputs.
\<close>

definition ping_body :: string where
  \<open>ping_body = ''{"jsonrpc":"2.0","id":1,"method":"ping"}''\<close>

definition example_DecodeMessage :: "bytes \<Rightarrow> error + string" where
  "example_DecodeMessage b =
     (if b = ping_body then Inr ''ping'' else Inl (External ''invalid json-rpc message''))"

definition example_url_Parse :: "string \<Rightarrow> error + url" where
  "example_url_Parse s =
     (if s = ''/mcp'' then Inr \<lparr>URL_Path = ''/mcp'', RawQuery = []\<rparr>
      else Inl (External ''invalid URL''))"

definition example_query_Add_Encode :: "string \<Rightarrow> (string \<times> string) list \<Rightarrow> string" where
  "example_query_Add_Encode raw ps = (if ps = [] then raw else raw @ ''&'')"

definition example_extern :: "string extern" where
  "example_extern =
     \<lparr>DecodeMessage = example_DecodeMessage, url_Parse = example_url_Parse,
      query_Add_Encode = example_query_Add_Encode\<rparr>"

definition example_ctrl :: Controller where
  "example_ctrl req = [OpWriteHeader 201, OpWrite ''{}'']"

definition example_event :: "string \<Rightarrow> string \<Rightarrow> bool \<Rightarrow> APIGatewayProxyRequest" where
  "example_event m b e =
     \<lparr>HTTPMethod = m, Path = ''/mcp'', Headers = [(''content-type'', ''application/json'')],
      QueryStringParameters = [], Body = b, IsBase64Encoded = e\<rparr>"

text \<open>The request that the adapter builds from \<open>example_event ''POST''\<close>, given its body stream.\<close>

definition example_input :: "reader \<Rightarrow> Request" where
  "example_input b =
     \<lparr>Ctx = 7, Method = ''POST'', URL = \<lparr>URL_Path = ''/mcp'', RawQuery = []\<rparr>,
      Header = [''Content-Type'' \<mapsto> [''application/json'']], ReqBody = Some b\<rparr>"

definition example_socket :: RoundTripper where
  "example_socket req = Inr \<lparr>Status = 200, ResponseBody = ''ok''\<rparr>"

definition example_request :: "Context \<Rightarrow> reader option \<Rightarrow> Request" where
  "example_request ctx b =
     \<lparr>Ctx = ctx, Method = ''POST'', URL = \<lparr>URL_Path = ''/mcp'', RawQuery = []\<rparr>,
      Header = [''Authorization'' \<mapsto> [''Bearer token'']], ReqBody = b\<rparr>"

definition example_credentials :: Credentials where
  "example_credentials =
     \<lparr>AccessKeyID = ''AKIDEXAMPLE'', SecretAccessKey = ''secret'', SessionToken = []\<rparr>"

definition example_Retrieve :: "Context \<Rightarrow> error + Credentials" where
  "example_Retrieve ctx =
     (if ctx = 0 then Inl (External ''no credentials'')
      else if ctx = 2 then Inr (example_credentials\<lparr>AccessKeyID := []\<rparr>)
      else Inr example_credentials)"

definition example_signer :: Signer where
  "example_signer ctx cred req hash service region now =
     (if AccessKeyID cred = [] then Inl (External ''signing failed'')
      else Inr (Header_Set (Header req) ''Authorization''
                  (''AWS4-HMAC-SHA256 Credential='' @ AccessKeyID cred), URL req))"

definition example_iam :: iamTransport where
  "example_iam =
     \<lparr>config = \<lparr>Retrieve = example_Retrieve, Region = ''eu-west-1''\<rparr>,
      signer = example_signer, iam_socket = example_socket\<rparr>"

text \<open>The request that \<open>example_iam\<close> hands to the inner transport for \<open>example_request 7\<close>.\<close>

definition example_signed :: "reader option \<Rightarrow> Request" where
  "example_signed b =
     \<lparr>Ctx = 7, Method = ''POST'', URL = \<lparr>URL_Path = ''/mcp'', RawQuery = []\<rparr>,
      Header = [''Authorization'' \<mapsto> [''AWS4-HMAC-SHA256 Credential=AKIDEXAMPLE'']],
      ReqBody = b\<rparr>"

definition example_ConfigApiKey :: "string \<Rightarrow> string \<Rightarrow> ConfigApiKey" where
  "example_ConfigApiKey a s =
     \<lparr>Url = ''https://example.com/mcp'', Access = a, Secret = s, Client = None\<rparr>"

definition example_sdk :: aws_sdk where
  "example_sdk =
     \<lparr>LoadDefaultConfig = Inr \<lparr>Retrieve = example_Retrieve, Region = ''eu-west-1''\<rparr>,
      LoadAssumeRoleConfig = (\<lambda>conf role ext. Inr conf),
      NewSigner = example_signer\<rparr>"

section \<open>Helper lemmas\<close>

lemma base64_Hello: "NewDecoder ''SGVsbG8='' = (''Hello'', None)"
  by (simp add: NewDecoder_def isNewline_def decodeMap_def encodeStd_def padChar_def
      char_of_def bit_0)

lemma base64_ping_body: "NewDecoder ping_body = ([], Some CorruptInputError)"
  by (simp add: NewDecoder_def isNewline_def decodeMap_def encodeStd_def ping_body_def)

lemma canonical_Authorization: "CanonicalMIMEHeaderKey ''Authorization'' = ''Authorization''"
  by (simp add: CanonicalMIMEHeaderKey_def isTokenByte_def)

lemma canonical_content_type: "CanonicalMIMEHeaderKey ''content-type'' = ''Content-Type''"
  by (simp add: CanonicalMIMEHeaderKey_def isTokenByte_def char_of_def bit_0)

lemma validMethod_POST: "validMethod ''POST''"
  by (simp add: validMethod_def isTokenByte_def)

lemma NewHttpRequest_body:
  "NewHttpRequest ext ctx ev = Inr r \<Longrightarrow> ReqBody r = Some (requestBody ev)"
  by (auto simp: NewHttpRequest_def NewRequestWithContext_def Let_def
      split: sum.splits if_splits)

lemma NewHttpRequest_example:
  "NewHttpRequest example_extern 7 (example_event ''POST'' b e) =
     Inr (example_input (requestBody (example_event ''POST'' b e)))"
  by (simp add: NewHttpRequest_def NewRequestWithContext_def validMethod_POST Let_def
      example_extern_def example_url_Parse_def example_query_Add_Encode_def
      example_event_def example_input_def Header_Set_def canonical_content_type)

lemma example_handler_response:
  "Value (ServeHTTP (example_ctrl r) NewHttpResponse) =
     \<lparr>StatusCode = 201, RespHeaders = Map.empty, MultiValueHeaders = Map.empty,
      RespBody = ''{}'', RespIsBase64Encoded = False\<rparr>"
  by (simp add: Value_def ServeHTTP_def example_ctrl_def NewHttpResponse_def WriteHeader_def
      Write_def)

lemma code_fold:
  "code (fold apply_op ops w) = (case last_status ops of None \<Rightarrow> code w | Some c \<Rightarrow> c)"
proof (induction ops arbitrary: w)
  case Nil
  show ?case by simp
next
  case (Cons x ops)
  show ?case
    by (cases x) (simp_all add: Cons.IH WriteHeader_def Write_def split: option.splits)
qed

lemma wbuf_fold: "wbuf (fold apply_op ops w) = wbuf w @ concat (map written ops)"
proof (induction ops arbitrary: w)
  case Nil
  show ?case by simp
next
  case (Cons x ops)
  show ?case
    by (cases x) (simp_all add: Cons.IH WriteHeader_def Write_def)
qed

lemma head_fold: "head (fold apply_op ops w) = fold header_op ops (head w)"
proof (induction ops arbitrary: w)
  case Nil
  show ?case by simp
next
  case (Cons x ops)
  show ?case
    by (cases x) (simp_all add: Cons.IH WriteHeader_def Write_def)
qed

lemma apikey_RoundTrip_forward:
  "apikey_RoundTrip api req =
     (socket api (req\<lparr>Header := (Header req)(''Authorization'' \<mapsto>
                       header_values (Header req) ''Authorization'' @ [''Basic '' @ digest api])\<rparr>),
      [EvRoundTrip (req\<lparr>Header := (Header req)(''Authorization'' \<mapsto>
                       header_values (Header req) ''Authorization'' @ [''Basic '' @ digest api])\<rparr>)])"
  by (simp add: apikey_RoundTrip_def Header_Add_def canonical_Authorization Let_def)

lemma iam_RoundTrip_example_ok:
  "iam_RoundTrip example_iam now (example_request 7 None) =
     (Inr \<lparr>Status = 200, ResponseBody = ''ok''\<rparr>,
      [EvRetrieve 7, EvSignHTTP empty_hash ''execute-api'' ''eu-west-1'',
       EvRoundTrip (example_signed None)])"
  by (simp add: iam_RoundTrip_def hashBody_def io_Copy_def NopCloser_def example_iam_def
      example_request_def
      example_Retrieve_def example_credentials_def example_signer_def example_socket_def
      example_signed_def Header_Set_def canonical_Authorization)

lemma iam_RoundTrip_example_body:
  "iam_RoundTrip example_iam now (example_request 7 (Some (b, None))) =
     (Inr \<lparr>Status = 200, ResponseBody = ''ok''\<rparr>,
      [EvRetrieve 7, EvSignHTTP (sha256_hex b) ''execute-api'' ''eu-west-1'',
       EvRoundTrip (example_signed (Some (b, None)))])"
  by (simp add: iam_RoundTrip_def hashBody_def io_Copy_def NopCloser_def example_iam_def
      example_request_def
      example_Retrieve_def example_credentials_def example_signer_def example_socket_def
      example_signed_def Header_Set_def canonical_Authorization)

section \<open>Gateway controller\<close>

text \<open>
  Claim C1. For every event whose \<^verbatim>\<open>httpMethod\<close> is \<^verbatim>\<open>GET\<close>, whatever its path, headers,
  query parameters and body, \<open>Serve\<close> returns exactly the response with status 405, no
  headers and an empty body, and it calls neither the envelope decoder nor the handler:
  the run has no event.
\<close>

theorem Serve_GET_405:
  assumes "HTTPMethod ev = ''GET''"
  shows "Serve ext gw ctx ev =
           (Inr \<lparr>StatusCode = 405, RespHeaders = Map.empty, MultiValueHeaders = Map.empty,
                 RespBody = [], RespIsBase64Encoded = False\<rparr>, [])"
  using assms by (simp add: Serve_def)

theorem Serve_GET_405_witness:
  "HTTPMethod (example_event ''GET'' ping_body True) = ''GET'' \<and>
   Serve example_extern (New example_ctrl) 7 (example_event ''GET'' ping_body True) =
     (Inr \<lparr>StatusCode = 405, RespHeaders = Map.empty, MultiValueHeaders = Map.empty,
           RespBody = [], RespIsBase64Encoded = False\<rparr>, [])"
proof -
  have m: "HTTPMethod (example_event ''GET'' ping_body True) = ''GET''"
    by (simp add: example_event_def)
  show ?thesis
    using m Serve_GET_405 [OF m, of example_extern "New example_ctrl" 7] by simp
qed

text \<open>
  Claim C2. For every event with a method other than \<^verbatim>\<open>GET\<close> and a non-empty body that
  the decoder rejects, \<open>Serve\<close> fails with the error of the decoder: it returns no
  response, the only call it makes is the one to the decoder, and the handler is not
  invoked.
\<close>

theorem Serve_decode_failure:
  assumes "HTTPMethod ev \<noteq> ''GET''" and "Body ev \<noteq> []"
    and "DecodeMessage ext (Body ev) = Inl err"
  shows "Serve ext gw ctx ev = (Inl err, [EvDecodeMessage (Body ev)]) \<and>
         (\<forall>r. EvServeHTTP r \<notin> set (snd (Serve ext gw ctx ev)))"
  using assms by (simp add: Serve_def)

theorem Serve_decode_failure_witness:
  "HTTPMethod (example_event ''POST'' ''not json'' False) \<noteq> ''GET'' \<and>
   Body (example_event ''POST'' ''not json'' False) \<noteq> [] \<and>
   DecodeMessage example_extern (Body (example_event ''POST'' ''not json'' False)) =
     Inl (External ''invalid json-rpc message'') \<and>
   Serve example_extern (New example_ctrl) 7 (example_event ''POST'' ''not json'' False) =
     (Inl (External ''invalid json-rpc message''), [EvDecodeMessage ''not json''])"
proof -
  have m: "HTTPMethod (example_event ''POST'' ''not json'' False) \<noteq> ''GET''"
    by (simp add: example_event_def)
  have b: "Body (example_event ''POST'' ''not json'' False) \<noteq> []"
    by (simp add: example_event_def)
  have d: "DecodeMessage example_extern (Body (example_event ''POST'' ''not json'' False)) =
             Inl (External ''invalid json-rpc message'')"
    by (simp add: example_event_def example_extern_def example_DecodeMessage_def ping_body_def)
  have "Body (example_event ''POST'' ''not json'' False) = ''not json''"
    by (simp add: example_event_def)
  with m b d Serve_decode_failure [OF m b d, of "New example_ctrl" 7] show ?thesis
    by simp
qed

text \<open>
  Claim C3, as the code has it. For every event with a method other than \<^verbatim>\<open>GET\<close> and a
  non-empty body that the decoder accepts, the envelope is not used: after the call to the
  decoder, \<open>Serve\<close> is \<open>serveCtrl\<close> on the event. When the adapter cannot build the request,
  its error is returned and the handler is not invoked. Otherwise the handler is invoked
  once, with the request of the adapter, and the recorder's value is returned; the body
  of that request is the event body, byte for byte, when \<^verbatim>\<open>isBase64Encoded\<close> is false, and
  the base64 decoding of the event body when it is true.
\<close>

theorem Serve_decoded_delegates:
  assumes "HTTPMethod ev \<noteq> ''GET''" and "Body ev \<noteq> []"
    and "DecodeMessage ext (Body ev) = Inr msg"
  shows "Serve ext gw ctx ev =
           (fst (serveCtrl ext gw ctx ev),
            EvDecodeMessage (Body ev) # snd (serveCtrl ext gw ctx ev)) \<and>
         (\<forall>err. NewHttpRequest ext ctx ev = Inl err \<longrightarrow>
            Serve ext gw ctx ev = (Inl err, [EvDecodeMessage (Body ev)])) \<and>
         (\<forall>r. NewHttpRequest ext ctx ev = Inr r \<longrightarrow>
            Serve ext gw ctx ev =
              (Inr (Value (ServeHTTP (ctrl gw r) NewHttpResponse)),
               [EvDecodeMessage (Body ev), EvServeHTTP r]) \<and>
            ReqBody r =
              Some (if IsBase64Encoded ev then NewDecoder (Body ev) else (Body ev, None)))"
  using assms
  by (auto simp: Serve_def serveCtrl_def requestBody_def dest: NewHttpRequest_body
      split: prod.splits sum.splits)

theorem Serve_decoded_delegates_witness:
  "HTTPMethod (example_event ''POST'' ping_body False) \<noteq> ''GET'' \<and>
   Body (example_event ''POST'' ping_body False) \<noteq> [] \<and>
   DecodeMessage example_extern (Body (example_event ''POST'' ping_body False)) = Inr ''ping'' \<and>
   NewHttpRequest example_extern 7 (example_event ''POST'' ping_body False) =
     Inr (example_input (ping_body, None)) \<and>
   Serve example_extern (New example_ctrl) 7 (example_event ''POST'' ping_body False) =
     (Inr \<lparr>StatusCode = 201, RespHeaders = Map.empty, MultiValueHeaders = Map.empty,
           RespBody = ''{}'', RespIsBase64Encoded = False\<rparr>,
      [EvDecodeMessage ping_body, EvServeHTTP (example_input (ping_body, None))]) \<and>
   ReqBody (example_input (ping_body, None)) = Some (ping_body, None)"
proof -
  let ?ev = "example_event ''POST'' ping_body False"
  have m: "HTTPMethod ?ev \<noteq> ''GET''"
    by (simp add: example_event_def)
  have b: "Body ?ev \<noteq> []"
    by (simp add: example_event_def ping_body_def)
  have d: "DecodeMessage example_extern (Body ?ev) = Inr ''ping''"
    by (simp add: example_event_def example_extern_def example_DecodeMessage_def)
  have r: "NewHttpRequest example_extern 7 ?ev = Inr (example_input (ping_body, None))"
    by (simp add: NewHttpRequest_example requestBody_def) (simp add: example_event_def)
  have f: "Body ?ev = ping_body" "\<not> IsBase64Encoded ?ev"
    by (simp_all add: example_event_def)
  from Serve_decoded_delegates [OF m b d, of "New example_ctrl" 7] r
  have "Serve example_extern (New example_ctrl) 7 ?ev =
          (Inr (Value (ServeHTTP (ctrl (New example_ctrl) (example_input (ping_body, None)))
                  NewHttpResponse)),
           [EvDecodeMessage (Body ?ev), EvServeHTTP (example_input (ping_body, None))]) \<and>
        ReqBody (example_input (ping_body, None)) =
          Some (if IsBase64Encoded ?ev then NewDecoder (Body ?ev) else (Body ?ev, None))"
    by blast
  with m b d r f show ?thesis
    by (simp add: New_def example_handler_response)
qed

text \<open>
  Claim C3 as stated fails: the ping request is accepted by the decoder, and with
  \<^verbatim>\<open>isBase64Encoded\<close> set the handler is invoked with a request whose body is the base64
  decoding of the text, a stream that fails at once, not the bytes of the event body.
\<close>

theorem Serve_decoded_base64_counterexample:
  "HTTPMethod (example_event ''POST'' ping_body True) \<noteq> ''GET'' \<and>
   Body (example_event ''POST'' ping_body True) \<noteq> [] \<and>
   DecodeMessage example_extern (Body (example_event ''POST'' ping_body True)) = Inr ''ping'' \<and>
   snd (Serve example_extern (New example_ctrl) 7 (example_event ''POST'' ping_body True)) =
     [EvDecodeMessage ping_body, EvServeHTTP (example_input ([], Some CorruptInputError))] \<and>
   ReqBody (example_input ([], Some CorruptInputError)) \<noteq>
     Some (Body (example_event ''POST'' ping_body True), None)"
proof -
  let ?ev = "example_event ''POST'' ping_body True"
  have f: "Body ?ev = ping_body" "IsBase64Encoded ?ev" "HTTPMethod ?ev = ''POST''"
    by (simp_all add: example_event_def)
  have b: "ping_body \<noteq> []"
    by (simp add: ping_body_def)
  have d: "DecodeMessage example_extern ping_body = Inr ''ping''"
    by (simp add: example_extern_def example_DecodeMessage_def)
  have r: "NewHttpRequest example_extern 7 ?ev =
             Inr (example_input ([], Some CorruptInputError))"
    by (simp add: NewHttpRequest_example requestBody_def f base64_ping_body)
  have "snd (Serve example_extern (New example_ctrl) 7 ?ev) =
          [EvDecodeMessage ping_body, EvServeHTTP (example_input ([], Some CorruptInputError))]"
    by (simp add: Serve_def serveCtrl_def f b d r)
  then show ?thesis
    by (simp add: f b d example_input_def)
qed

text \<open>
  Claim C9. A request built from an event with \<^verbatim>\<open>isBase64Encoded\<close> set and the body
  \<^verbatim>\<open>SGVsbG8=\<close> has a body stream that reads \<^verbatim>\<open>Hello\<close> and then ends, whatever the other
  fields of the event are.
\<close>

theorem requestBody_base64_Hello:
  "requestBody \<lparr>HTTPMethod = m, Path = p, Headers = hs, QueryStringParameters = qs,
                 Body = ''SGVsbG8='', IsBase64Encoded = True\<rparr> = (''Hello'', None) \<and>
   (\<forall>r. NewHttpRequest ext ctx
           \<lparr>HTTPMethod = m, Path = p, Headers = hs, QueryStringParameters = qs,
            Body = ''SGVsbG8='', IsBase64Encoded = True\<rparr> = Inr r \<longrightarrow>
        ReqBody r = Some (''Hello'', None))"
  by (auto simp: requestBody_def base64_Hello dest: NewHttpRequest_body)

theorem requestBody_base64_Hello_witness:
  "NewHttpRequest example_extern 7 (example_event ''POST'' ''SGVsbG8='' True) =
     Inr (example_input (''Hello'', None)) \<and>
   ReqBody (example_input (''Hello'', None)) = Some (''Hello'', None)"
proof -
  have e: "example_event ''POST'' ''SGVsbG8='' True =
             \<lparr>HTTPMethod = ''POST'', Path = ''/mcp'',
              Headers = [(''content-type'', ''application/json'')],
              QueryStringParameters = [], Body = ''SGVsbG8='', IsBase64Encoded = True\<rparr>"
    by (simp add: example_event_def)
  from requestBody_base64_Hello
         [of "''POST''" "''/mcp''" "[(''content-type'', ''application/json'')]" "[]"
             example_extern 7]
  have "requestBody (example_event ''POST'' ''SGVsbG8='' True) = (''Hello'', None)"
    by (simp add: e)
  then show ?thesis
    by (simp add: NewHttpRequest_example example_input_def)
qed

section \<open>Response recorder\<close>

text \<open>
  Claim C8, as the code has it. For every sequence of writes followed by finalization,
  the status of the response is 200 when no status was set or when the status set last
  is 0, and the status set last otherwise, wherever the body writes stand in the
  sequence; the headers are the header operations applied in order to the empty header;
  the body is the concatenation of the bytes written, in order.
\<close>

theorem Value_after_writes:
  "Value (ServeHTTP ops NewHttpResponse) =
     \<lparr>StatusCode = (if spec_statusCode ops = 0 then 200 else spec_statusCode ops),
      RespHeaders = Map.empty,
      MultiValueHeaders = fold header_op ops Map.empty,
      RespBody = concat (map written ops),
      RespIsBase64Encoded = False\<rparr>"
  by (simp add: Value_def ServeHTTP_def code_fold wbuf_fold head_fold NewHttpResponse_def
      spec_statusCode_def split: option.splits)

theorem Value_after_writes_witness:
  "Value (ServeHTTP [OpWriteHeader 201, OpWrite ''{}''] NewHttpResponse) =
     \<lparr>StatusCode = 201, RespHeaders = Map.empty, MultiValueHeaders = Map.empty,
      RespBody = ''{}'', RespIsBase64Encoded = False\<rparr> \<and>
   StatusCode (Value (ServeHTTP [OpWrite ''{}''] NewHttpResponse)) = 200"
  using Value_after_writes [of "[OpWriteHeader 201, OpWrite ''{}'']"]
    Value_after_writes [of "[OpWrite ''{}'']"]
  by (simp add: spec_statusCode_def)

text \<open>
  Claim C8 as stated fails: after the status 0 was set, the status set last is 0 and the
  response carries 200.
\<close>

theorem Value_status_zero_counterexample:
  "StatusCode (Value (ServeHTTP [OpWriteHeader 0] NewHttpResponse)) = 200 \<and>
   spec_statusCode [OpWriteHeader 0] = 0 \<and>
   StatusCode (Value (ServeHTTP [OpWriteHeader 0] NewHttpResponse)) \<noteq>
     spec_statusCode [OpWriteHeader 0]"
  by (simp add: Value_def ServeHTTP_def NewHttpResponse_def WriteHeader_def spec_statusCode_def)

section \<open>Shared-secret transport\<close>

text \<open>
  Claim C6. Construction with a non-empty URL yields a transport whose digest is the
  unpadded standard base64 of access, a colon and secret, computed once; for every
  request, \<open>RoundTrip\<close> calls the inner transport once, with the request in which the
  value \<^verbatim>\<open>Basic\<close> followed by the digest has been added under \<^verbatim>\<open>Authorization\<close> and
  nothing else has changed. The value does not depend on the request, and for access
  \<^verbatim>\<open>access\<close> and secret \<^verbatim>\<open>secret\<close> it is \<^verbatim>\<open>Basic YWNjZXNzOnNlY3JldA\<close>.
\<close>

theorem NewTransportApiKey_Basic_digest:
  assumes "Url spec \<noteq> []"
  shows "\<exists>api. NewTransportApiKey dt spec =
                 Inr \<lparr>Endpoint = Url spec, HTTPClient = \<lparr>Transport = Some api\<rparr>\<rparr> \<and>
           digest api = EncodeToString (Access spec @ '':'' @ Secret spec) \<and>
           (Access spec = ''access'' \<and> Secret spec = ''secret'' \<longrightarrow>
              ''Basic '' @ digest api = ''Basic YWNjZXNzOnNlY3JldA'') \<and>
           (\<forall>req. apikey_RoundTrip api req =
              (socket api (req\<lparr>Header := (Header req)(''Authorization'' \<mapsto>
                       header_values (Header req) ''Authorization'' @ [''Basic '' @ digest api])\<rparr>),
               [EvRoundTrip (req\<lparr>Header := (Header req)(''Authorization'' \<mapsto>
                       header_values (Header req) ''Authorization'' @ [''Basic '' @ digest api])\<rparr>)]))"
  using assms
  by (auto simp: NewTransportApiKey_def apikey_RoundTrip_forward b64char_def encodeStd_def)

theorem NewTransportApiKey_Basic_digest_witness:
  "Url (example_ConfigApiKey ''access'' ''secret'') \<noteq> [] \<and>
   NewTransportApiKey example_socket (example_ConfigApiKey ''access'' ''secret'') =
     Inr \<lparr>Endpoint = ''https://example.com/mcp'',
          HTTPClient = \<lparr>Transport =
            Some \<lparr>digest = ''YWNjZXNzOnNlY3JldA'', socket = example_socket\<rparr>\<rparr>\<rparr> \<and>
   snd (apikey_RoundTrip \<lparr>digest = ''YWNjZXNzOnNlY3JldA'', socket = example_socket\<rparr>
          \<lparr>Ctx = 7, Method = ''POST'', URL = \<lparr>URL_Path = ''/mcp'', RawQuery = []\<rparr>,
           Header = Map.empty, ReqBody = None\<rparr>) =
     [EvRoundTrip
        \<lparr>Ctx = 7, Method = ''POST'', URL = \<lparr>URL_Path = ''/mcp'', RawQuery = []\<rparr>,
         Header = [''Authorization'' \<mapsto> [''Basic YWNjZXNzOnNlY3JldA'']], ReqBody = None\<rparr>]"
proof -
  let ?spec = "example_ConfigApiKey ''access'' ''secret''"
  have u: "Url ?spec \<noteq> []"
    by (simp add: example_ConfigApiKey_def)
  have f: "Access ?spec = ''access''" "Secret ?spec = ''secret''"
          "Url ?spec = ''https://example.com/mcp''" "Client ?spec = None"
    by (simp_all add: example_ConfigApiKey_def)
  from NewTransportApiKey_Basic_digest [OF u, of example_socket]
  obtain api where a:
    "NewTransportApiKey example_socket ?spec =
       Inr \<lparr>Endpoint = Url ?spec, HTTPClient = \<lparr>Transport = Some api\<rparr>\<rparr>"
    "''Basic '' @ digest api = ''Basic YWNjZXNzOnNlY3JldA''"
    "\<And>req. apikey_RoundTrip api req =
              (socket api (req\<lparr>Header := (Header req)(''Authorization'' \<mapsto>
                       header_values (Header req) ''Authorization'' @ [''Basic '' @ digest api])\<rparr>),
               [EvRoundTrip (req\<lparr>Header := (Header req)(''Authorization'' \<mapsto>
                       header_values (Header req) ''Authorization'' @ [''Basic '' @ digest api])\<rparr>)])"
    using f by auto
  have s: "api = \<lparr>digest = ''YWNjZXNzOnNlY3JldA'', socket = example_socket\<rparr>"
    using a(1) by (auto simp: NewTransportApiKey_def f b64char_def encodeStd_def)
  show ?thesis
    using u a(1) a(3) [of "\<lparr>Ctx = 7, Method = ''POST'', URL = \<lparr>URL_Path = ''/mcp'', RawQuery = []\<rparr>,
           Header = Map.empty, ReqBody = None\<rparr>"]
    by (simp add: s f header_values_def)
qed

text \<open>
  Claim C10. \<open>RoundTrip\<close> adds its value and replaces nothing: when the request already
  has values under \<^verbatim>\<open>Authorization\<close>, the request handed to the inner transport has these
  values, in their order, followed by \<^verbatim>\<open>Basic\<close> and the digest.
\<close>

theorem apikey_RoundTrip_appends:
  assumes "Header req ''Authorization'' = Some vs"
  shows "\<exists>r. apikey_RoundTrip api req = (socket api r, [EvRoundTrip r]) \<and>
             Header r ''Authorization'' = Some (vs @ [''Basic '' @ digest api])"
  using assms
  by (simp add: apikey_RoundTrip_forward header_values_def)

theorem apikey_RoundTrip_appends_witness:
  "Header (example_request 7 None) ''Authorization'' = Some [''Bearer token''] \<and>
   snd (apikey_RoundTrip \<lparr>digest = ''YWNjZXNzOnNlY3JldA'', socket = example_socket\<rparr>
          (example_request 7 None)) =
     [EvRoundTrip
        \<lparr>Ctx = 7, Method = ''POST'', URL = \<lparr>URL_Path = ''/mcp'', RawQuery = []\<rparr>,
         Header = [''Authorization'' \<mapsto> [''Bearer token'', ''Basic YWNjZXNzOnNlY3JldA'']],
         ReqBody = None\<rparr>]"
proof -
  let ?api = "\<lparr>digest = ''YWNjZXNzOnNlY3JldA'', socket = example_socket\<rparr>"
  have h: "Header (example_request 7 None) ''Authorization'' = Some [''Bearer token'']"
    by (simp add: example_request_def)
  from apikey_RoundTrip_appends [OF h, of ?api]
  obtain r where r:
    "apikey_RoundTrip ?api (example_request 7 None) = (socket ?api r, [EvRoundTrip r])"
    "Header r ''Authorization'' = Some ([''Bearer token''] @ [''Basic '' @ digest ?api])"
    by blast
  have "snd (apikey_RoundTrip ?api (example_request 7 None)) = [EvRoundTrip r]"
    using r(1) by simp
  moreover have "snd (apikey_RoundTrip ?api (example_request 7 None)) =
     [EvRoundTrip
        \<lparr>Ctx = 7, Method = ''POST'', URL = \<lparr>URL_Path = ''/mcp'', RawQuery = []\<rparr>,
         Header = [''Authorization'' \<mapsto> [''Bearer token'', ''Basic YWNjZXNzOnNlY3JldA'']],
         ReqBody = None\<rparr>]"
    by (simp add: apikey_RoundTrip_forward example_request_def header_values_def)
  ultimately show ?thesis
    using h by simp
qed

text \<open>
  Claim C7, as the code has it. Both constructors fail with the error
  \<^verbatim>\<open>missing URL config\<close>, and return no transport, when the endpoint URL is empty. The
  shared-secret constructor fails in no other case: access and secret are not checked, and
  with a non-empty URL a transport is returned whatever they are.
\<close>

theorem NewTransport_missing_Url:
  "(isl (NewTransportApiKey dt spec) \<longleftrightarrow> Url spec = []) \<and>
   (Url spec = [] \<longrightarrow> NewTransportApiKey dt spec = Inl (ErrorString ''missing URL config'')) \<and>
   (IAM_Url ispec = [] \<longrightarrow>
      NewTransportIAM dt sdk ispec = Inl (ErrorString ''missing URL config''))"
  by (simp add: NewTransportApiKey_def NewTransportIAM_def)

theorem NewTransport_missing_Url_witness:
  "NewTransportApiKey example_socket
     \<lparr>Url = [], Access = ''access'', Secret = ''secret'', Client = None\<rparr> =
     Inl (ErrorString ''missing URL config'') \<and>
   NewTransportIAM example_socket example_sdk
     \<lparr>IAM_Url = [], Role = [], ExternalID = [], Config = None, IAM_Client = None\<rparr> =
     Inl (ErrorString ''missing URL config'') \<and>
   \<not> isl (NewTransportApiKey example_socket (example_ConfigApiKey ''access'' ''secret''))"
  using NewTransport_missing_Url
          [of example_socket "\<lparr>Url = [], Access = ''access'', Secret = ''secret'', Client = None\<rparr>"
              "\<lparr>IAM_Url = [], Role = [], ExternalID = [], Config = None, IAM_Client = None\<rparr>"
              example_sdk]
        NewTransport_missing_Url
          [of example_socket "example_ConfigApiKey ''access'' ''secret''"
              "\<lparr>IAM_Url = [], Role = [], ExternalID = [], Config = None, IAM_Client = None\<rparr>"
              example_sdk]
  by (simp add: example_ConfigApiKey_def)

text \<open>
  Claim C7 as stated fails: with an empty access and an empty secret the shared-secret
  constructor returns a transport, its digest being the encoding of the colon alone.
\<close>

theorem NewTransportApiKey_empty_keys_counterexample:
  "NewTransportApiKey example_socket (example_ConfigApiKey [] []) =
     Inr \<lparr>Endpoint = ''https://example.com/mcp'',
          HTTPClient = \<lparr>Transport = Some \<lparr>digest = ''Og'', socket = example_socket\<rparr>\<rparr>\<rparr>"
  by (simp add: NewTransportApiKey_def example_ConfigApiKey_def b64char_def encodeStd_def)

section \<open>Signed-request transport\<close>

lemma replicate_numeral_unfold:
  "replicate (numeral k) x = x # replicate (pred_numeral k) x"
  by (simp add: numeral_eq_Suc)

lemma sha256_hex_empty: "sha256_hex [] = empty_hash"
  by (simp add: sha256_hex_def empty_hash_def blockGeneric.simps blockGeneric1_def
      sha256_padding_def be64_def hex32_def hexdigit_def sha256_K_def sha256_init_def
      replicate_numeral_unfold sched_t1_def sched_t2_def round_t1_def round_t2_def rotr_def
      add32_def not32_def)

text \<open>
  Claim C4. The constant used as the hash of a request without a body is the SHA-256
  digest of the empty byte sequence, in hexadecimal; for a request without a body every
  call to the signer gets that constant. For a request with a body, whenever a request is
  handed to the inner transport the original stream was read to its end without error and
  is drained by then; the body of the forwarded request is a stream that has exactly the
  bytes read still to deliver, and the hash the signer got is the digest of these same
  bytes.
\<close>

theorem iam_RoundTrip_hash_then_restore:
  "empty_hash = sha256_hex [] \<and>
   (ReqBody req = None \<longrightarrow>
      (\<forall>hash service region.
         EvSignHTTP hash service region \<in> set (snd (iam_RoundTrip api now req)) \<longrightarrow>
         hash = empty_hash)) \<and>
   (\<forall>buf rerr r.
      ReqBody req = Some (buf, rerr) \<and> EvRoundTrip r \<in> set (snd (iam_RoundTrip api now req)) \<longrightarrow>
      rerr = None \<and> io_Copy (buf, rerr) = (buf, None, ([], None)) \<and>
      ReqBody r = Some (buf, None) \<and>
      EvSignHTTP (sha256_hex buf) ''execute-api'' (Region (config api))
        \<in> set (snd (iam_RoundTrip api now req)))"
  by (auto simp: sha256_hex_empty iam_RoundTrip_def hashBody_def io_Copy_def NopCloser_def
      Let_def split: sum.splits prod.splits option.splits)

theorem iam_RoundTrip_hash_then_restore_witness:
  "ReqBody (example_request 7 None) = None \<and>
   EvSignHTTP empty_hash ''execute-api'' ''eu-west-1''
     \<in> set (snd (iam_RoundTrip example_iam 0 (example_request 7 None))) \<and>
   ReqBody (example_request 7 (Some (''{}'', None))) = Some (''{}'', None) \<and>
   EvRoundTrip (example_signed (Some (''{}'', None)))
     \<in> set (snd (iam_RoundTrip example_iam 0 (example_request 7 (Some (''{}'', None))))) \<and>
   ReqBody (example_signed (Some (''{}'', None))) = Some (''{}'', None) \<and>
   EvSignHTTP (sha256_hex ''{}'') ''execute-api'' (Region (config example_iam))
     \<in> set (snd (iam_RoundTrip example_iam 0 (example_request 7 (Some (''{}'', None)))))"
proof -
  let ?req = "example_request 7 (Some (''{}'', None))"
  have n: "ReqBody (example_request 7 None) = None"
    by (simp add: example_request_def)
  have s: "EvSignHTTP empty_hash ''execute-api'' ''eu-west-1''
             \<in> set (snd (iam_RoundTrip example_iam 0 (example_request 7 None)))"
    by (simp add: iam_RoundTrip_example_ok)
  have b: "ReqBody ?req = Some (''{}'', None)"
    by (simp add: example_request_def)
  have f: "EvRoundTrip (example_signed (Some (''{}'', None)))
             \<in> set (snd (iam_RoundTrip example_iam 0 ?req))"
    by (simp add: iam_RoundTrip_example_body)
  from iam_RoundTrip_hash_then_restore [of ?req example_iam 0] b f
  have "ReqBody (example_signed (Some (''{}'', None))) = Some (''{}'', None) \<and>
        EvSignHTTP (sha256_hex ''{}'') ''execute-api'' (Region (config example_iam))
          \<in> set (snd (iam_RoundTrip example_iam 0 ?req))"
    by blast
  with n s b f show ?thesis
    by blast
qed

text \<open>
  Claim C5. When the credential provider fails, when reading the body fails, or when the
  signer fails, \<open>RoundTrip\<close> returns that error and the inner transport is not called: the
  run ends with the failing step. A request reaches the inner transport only after all
  three steps have succeeded.
\<close>

theorem iam_RoundTrip_failures:
  "(\<forall>err. Retrieve (config api) (Ctx req) = Inl err \<longrightarrow>
      iam_RoundTrip api now req = (Inl err, [EvRetrieve (Ctx req)])) \<and>
   (\<forall>cred buf err.
      Retrieve (config api) (Ctx req) = Inr cred \<and> ReqBody req = Some (buf, Some err) \<longrightarrow>
      iam_RoundTrip api now req = (Inl err, [EvRetrieve (Ctx req)])) \<and>
   (\<forall>cred hash req1 err.
      Retrieve (config api) (Ctx req) = Inr cred \<and> hashBody req = Inr (hash, req1) \<and>
      signer api (Ctx req1) cred req1 hash ''execute-api'' (Region (config api)) now = Inl err \<longrightarrow>
      iam_RoundTrip api now req =
        (Inl err, [EvRetrieve (Ctx req), EvSignHTTP hash ''execute-api'' (Region (config api))])) \<and>
   (\<forall>r. EvRoundTrip r \<in> set (snd (iam_RoundTrip api now req)) \<longrightarrow>
      (\<exists>cred hash req1 h u.
         Retrieve (config api) (Ctx req) = Inr cred \<and> hashBody req = Inr (hash, req1) \<and>
         signer api (Ctx req1) cred req1 hash ''execute-api'' (Region (config api)) now =
           Inr (h, u)))"
  by (auto simp: iam_RoundTrip_def hashBody_def io_Copy_def NopCloser_def
      split: sum.splits prod.splits option.splits)

theorem iam_RoundTrip_failures_witness:
  "Retrieve (config example_iam) (Ctx (example_request 0 None)) =
     Inl (External ''no credentials'') \<and>
   iam_RoundTrip example_iam 0 (example_request 0 None) =
     (Inl (External ''no credentials''), [EvRetrieve 0]) \<and>
   ReqBody (example_request 7 (Some (''{'', Some (External ''read failed'')))) =
     Some (''{'', Some (External ''read failed'')) \<and>
   iam_RoundTrip example_iam 0 (example_request 7 (Some (''{'', Some (External ''read failed'')))) =
     (Inl (External ''read failed''), [EvRetrieve 7]) \<and>
   hashBody (example_request 2 None) = Inr (empty_hash, example_request 2 None) \<and>
   iam_RoundTrip example_iam 0 (example_request 2 None) =
     (Inl (External ''signing failed''),
      [EvRetrieve 2, EvSignHTTP empty_hash ''execute-api'' ''eu-west-1''])"
proof -
  let ?bad = "example_request 7 (Some (''{'', Some (External ''read failed'')))"
  have c0: "Retrieve (config example_iam) (Ctx (example_request 0 None)) =
              Inl (External ''no credentials'')"
    by (simp add: example_iam_def example_request_def example_Retrieve_def)
  have c7: "Retrieve (config example_iam) (Ctx ?bad) = Inr example_credentials"
    by (simp add: example_iam_def example_request_def example_Retrieve_def)
  have b7: "ReqBody ?bad = Some (''{'', Some (External ''read failed''))"
    by (simp add: example_request_def)
  have c1: "Retrieve (config example_iam) (Ctx (example_request 2 None)) =
              Inr (example_credentials\<lparr>AccessKeyID := []\<rparr>)"
    by (simp add: example_iam_def example_request_def example_Retrieve_def)
  have h1: "hashBody (example_request 2 None) = Inr (empty_hash, example_request 2 None)"
    by (simp add: hashBody_def example_request_def)
  have s1: "signer example_iam (Ctx (example_request 2 None))
              (example_credentials\<lparr>AccessKeyID := []\<rparr>) (example_request 2 None) empty_hash
              ''execute-api'' (Region (config example_iam)) 0 = Inl (External ''signing failed'')"
    by (simp add: example_iam_def example_signer_def)
  have f: "Ctx (example_request 0 None) = 0" "Ctx ?bad = 7" "Ctx (example_request 2 None) = 2"
          "Region (config example_iam) = ''eu-west-1''"
    by (simp_all add: example_request_def example_iam_def)
  from iam_RoundTrip_failures [of example_iam "example_request 0 None" 0] c0
  have r0: "iam_RoundTrip example_iam 0 (example_request 0 None) =
              (Inl (External ''no credentials''), [EvRetrieve (Ctx (example_request 0 None))])"
    by blast
  from iam_RoundTrip_failures [of example_iam ?bad 0] c7 b7
  have r7: "iam_RoundTrip example_iam 0 ?bad =
              (Inl (External ''read failed''), [EvRetrieve (Ctx ?bad)])"
    by blast
  from iam_RoundTrip_failures [of example_iam "example_request 2 None" 0] c1 h1 s1
  have r1: "iam_RoundTrip example_iam 0 (example_request 2 None) =
              (Inl (External ''signing failed''),
               [EvRetrieve (Ctx (example_request 2 None)),
                EvSignHTTP empty_hash ''execute-api'' (Region (config example_iam))])"
    by blast
  from c0 b7 h1 r0 r7 r1 show ?thesis
    by (simp add: f)
qed

end
